theory Spec2Isabelle
  imports Main "HOL-Library.Product_Lexorder"
begin

section \<open>The Python library functions used by \<^verbatim>\<open>time_parser.py\<close>\<close>

text \<open>
  \<^verbatim>\<open>time_parser.py\<close> is forty lines of glue around four library facilities: the
  \<^verbatim>\<open>re\<close> module, \<^verbatim>\<open>datetime.strptime\<close>, \<^verbatim>\<open>datetime.strftime\<close> and the ordering of
  \<^verbatim>\<open>datetime\<close> objects. They are modelled here as far as the module uses them.

  Conventions of the model:
  \<^item> a Python \<^verbatim>\<open>str\<close> is a \<^typ>\<open>string\<close> of 8-bit characters, and the library follows
    its ASCII rules on them: \<^verbatim>\<open>\d\<close> is \<^verbatim>\<open>[0-9]\<close>, \<^verbatim>\<open>\s\<close> is ASCII white space and
    \<^verbatim>\<open>lower()\<close> acts on \<^verbatim>\<open>A-Z\<close>. The module applies \<^verbatim>\<open>lower()\<close> to a token of its
    pattern and to a day name only, and its formats meet white space only where its
    patterns and \<^verbatim>\<open>strftime\<close> have put a blank;
  \<^item> the locale is the C locale: \<^verbatim>\<open>%a\<close> prints \<^verbatim>\<open>Mon\<close> .. \<^verbatim>\<open>Sun\<close>, \<^verbatim>\<open>%p\<close> reads \<^verbatim>\<open>AM\<close>/\<^verbatim>\<open>PM\<close>;
  \<^item> instants are naive \<^verbatim>\<open>datetime\<close> objects (no \<^verbatim>\<open>tzinfo\<close>);
  \<^item> an exception is a value \<open>Inl e\<close> of the result type \<open>error + 'a\<close>; the
    \<^verbatim>\<open>ValueError\<close> of \<^verbatim>\<open>strptime\<close>, which the module always catches, is \<open>None\<close>.
    \<^verbatim>\<open>TypeError\<close> and \<^verbatim>\<open>AttributeError\<close> are what Python raises when \<^verbatim>\<open>group(1)\<close> is
    \<^verbatim>\<open>None\<close>; the patterns never leave it so (\<open>period_group_1\<close>, \<open>date_group_1\<close>,
    \<open>time_group_1\<close> below).
\<close>

datatype error = ParseError | TypeError | AttributeError

subsection \<open>\<^verbatim>\<open>datetime.date\<close> and \<^verbatim>\<open>datetime.datetime\<close>\<close>

text \<open>\<^verbatim>\<open>datetime\<close> is a subclass of \<^verbatim>\<open>date\<close>; the record extension says the same.\<close>

record date =
  year :: nat
  month :: nat
  day :: nat

record datetime = date +
  hour :: nat
  minute :: nat
  second :: nat
  microsecond :: nat

definition is_leap :: "nat \<Rightarrow> bool" where
  "is_leap y = (y mod 4 = 0 \<and> (y mod 100 \<noteq> 0 \<or> y mod 400 = 0))"

definition DAYS_IN_MONTH :: "nat list" where
  "DAYS_IN_MONTH = [0, 31, 28, 31, 30, 31, 30, 31, 31, 30, 31, 30, 31]"

definition DAYS_BEFORE_MONTH :: "nat list" where
  "DAYS_BEFORE_MONTH = [0, 0, 31, 59, 90, 120, 151, 181, 212, 243, 273, 304, 334]"

definition days_in_month :: "nat \<Rightarrow> nat \<Rightarrow> nat" where
  "days_in_month y m = (if m = 2 \<and> is_leap y then 29 else DAYS_IN_MONTH ! m)"

definition days_before_year :: "nat \<Rightarrow> nat" where
  "days_before_year y =
     (let y1 = y - 1 in y1 * 365 + y1 div 4 + y1 div 400 - y1 div 100)"

definition days_before_month :: "nat \<Rightarrow> nat \<Rightarrow> nat" where
  "days_before_month y m = DAYS_BEFORE_MONTH ! m + (if 2 < m \<and> is_leap y then 1 else 0)"

definition ymd2ord :: "nat \<Rightarrow> nat \<Rightarrow> nat \<Rightarrow> nat" where
  "ymd2ord y m d = days_before_year y + days_before_month y m + d"

text \<open>The constructor's range checks: what makes a \<^verbatim>\<open>date\<close> or \<^verbatim>\<open>datetime\<close> object.\<close>

definition valid_date :: "nat \<Rightarrow> nat \<Rightarrow> nat \<Rightarrow> bool" where
  "valid_date y m d =
     (1 \<le> y \<and> y \<le> 9999 \<and> 1 \<le> m \<and> m \<le> 12 \<and> 1 \<le> d \<and> d \<le> days_in_month y m)"

definition valid_datetime :: "datetime \<Rightarrow> bool" where
  "valid_datetime t =
     (valid_date (year t) (month t) (day t) \<and> hour t < 24 \<and> minute t < 60 \<and>
      second t < 60 \<and> microsecond t < 1000000)"

text \<open>\<^verbatim>\<open>date.weekday()\<close>: Monday is 0, Sunday is 6.\<close>

definition toordinal :: "'a date_scheme \<Rightarrow> nat" where
  "toordinal t = ymd2ord (year t) (month t) (day t)"

definition weekday :: "'a date_scheme \<Rightarrow> nat" where
  "weekday t = (toordinal t + 6) mod 7"

text \<open>\<^verbatim>\<open>datetime.date()\<close>, and the comparisons: both classes compare their field tuples.\<close>

definition date_of :: "datetime \<Rightarrow> date" where
  "date_of t = \<lparr>year = year t, month = month t, day = day t\<rparr>"

definition date_key :: "date \<Rightarrow> nat \<times> nat \<times> nat" where
  "date_key d = (year d, month d, day d)"

definition datetime_key :: "datetime \<Rightarrow> nat \<times> nat \<times> nat \<times> nat \<times> nat \<times> nat \<times> nat" where
  "datetime_key t =
     (year t, month t, day t, hour t, minute t, second t, microsecond t)"

definition date_le :: "date \<Rightarrow> date \<Rightarrow> bool" where
  "date_le a b = (date_key a \<le> date_key b)"

definition datetime_le :: "datetime \<Rightarrow> datetime \<Rightarrow> bool" where
  "datetime_le a b = (datetime_key a \<le> datetime_key b)"

subsection \<open>\<^verbatim>\<open>str.lower\<close>, \<^verbatim>\<open>strftime\<close>\<close>

definition lower_char :: "char \<Rightarrow> char" where
  "lower_char c =
     (case map_of (zip ''ABCDEFGHIJKLMNOPQRSTUVWXYZ'' ''abcdefghijklmnopqrstuvwxyz'') c of
        Some l \<Rightarrow> l
      | None \<Rightarrow> c)"

definition lower :: "string \<Rightarrow> string" where
  "lower s = map lower_char s"

definition DAY_NAMES :: "string list" where
  "DAY_NAMES = [''Mon'', ''Tue'', ''Wed'', ''Thu'', ''Fri'', ''Sat'', ''Sun'']"

definition strftime_a :: "datetime \<Rightarrow> string" where
  "strftime_a t = DAY_NAMES ! weekday t"

definition digit_char :: "nat \<Rightarrow> char" where
  "digit_char n = ''0123456789'' ! (n mod 10)"

definition fmt2 :: "nat \<Rightarrow> string" where
  "fmt2 n = [digit_char (n div 10), digit_char n]"

text \<open>A number in decimal, without leading zeros.\<close>

fun decimal :: "nat \<Rightarrow> string" where
  "decimal n = (if n < 10 then [digit_char n] else decimal (n div 10) @ [digit_char n])"

declare decimal.simps [simp del]

text \<open>Four digits: the decimal of a year from 1000 on.\<close>

definition fmt4 :: "nat \<Rightarrow> string" where
  "fmt4 n = [digit_char (n div 1000), digit_char (n div 100), digit_char (n div 10), digit_char n]"

text \<open>
  \<^verbatim>\<open>date_time.strftime('%d/%m/%Y ')\<close>. Day and month are two digits. \<^verbatim>\<open>%Y\<close> goes to
  the C library, and the C library of Linux prints the year as a plain decimal number:
  CPython 3.11 prints the year 999 as \<^verbatim>\<open>999\<close> and the year 1 as \<^verbatim>\<open>1\<close>, not as
  \<^verbatim>\<open>0999\<close> and \<^verbatim>\<open>0001\<close>. So the text has a four-digit year from the year 1000 on only,
  and \<^verbatim>\<open>%Y\<close> of \<^verbatim>\<open>strptime\<close> reads four digits only.
\<close>

definition strftime_dmY :: "datetime \<Rightarrow> string" where
  "strftime_dmY t = fmt2 (day t) @ ''/'' @ fmt2 (month t) @ ''/'' @ decimal (year t) @ '' ''"

subsection \<open>\<^verbatim>\<open>datetime.strptime\<close>\<close>

text \<open>
  \<^verbatim>\<open>strptime\<close> turns the format into a pattern, one group per directive, matches it
  at the start of the text and demands that the whole text is consumed:
  \<^verbatim>\<open>
  %d  3[0-1]|[1-2]\d|0[1-9]|[1-9]| [1-9]        %Y  \d\d\d\d
  %m  1[0-2]|0[1-9]|[1-9]                       %M  [0-5]\d|\d
  %I  1[0-2]|0[1-9]|[1-9]                       %p  am|pm   (case-insensitive)
  \<close>
  and white space in the format is \<^verbatim>\<open>\s+\<close>. Each directive below tries its
  alternatives in that order and takes the first that fits. The pattern's backtracking
  finds nothing more in the two formats of this module: a shorter alternative of a
  directive leaves a digit in front of the \<^verbatim>\<open>/\<close>, \<^verbatim>\<open>:\<close> or white space that must
  follow.
\<close>

definition digit_val :: "char \<Rightarrow> nat option" where
  "digit_val c = map_of (zip ''0123456789'' [0, 1, 2, 3, 4, 5, 6, 7, 8, 9]) c"

type_synonym 'a directive = "string \<Rightarrow> ('a \<times> string) option"

definition two_digits :: "(nat \<Rightarrow> bool) \<Rightarrow> (nat \<Rightarrow> bool) \<Rightarrow> nat directive" where
  "two_digits P Q s =
     (case s of
        a # b # r \<Rightarrow>
          (case (digit_val a, digit_val b) of
             (Some x, Some y) \<Rightarrow> if P x \<and> Q y then Some (10 * x + y, r) else None
           | _ \<Rightarrow> None)
      | _ \<Rightarrow> None)"

definition one_digit :: "(nat \<Rightarrow> bool) \<Rightarrow> nat directive" where
  "one_digit P s =
     (case s of
        a # r \<Rightarrow> (case digit_val a of Some x \<Rightarrow> if P x then Some (x, r) else None | None \<Rightarrow> None)
      | [] \<Rightarrow> None)"

definition space_digit :: "(nat \<Rightarrow> bool) \<Rightarrow> nat directive" where
  "space_digit P s =
     (case s of a # r \<Rightarrow> if a = CHR '' '' then one_digit P r else None | [] \<Rightarrow> None)"

fun first_of :: "'a directive list \<Rightarrow> 'a directive" where
  "first_of [] s = None"
| "first_of (p # ps) s = (case p s of Some v \<Rightarrow> Some v | None \<Rightarrow> first_of ps s)"

definition strp_d :: "nat directive" where
  "strp_d =
     first_of [two_digits (\<lambda>x. x = 3) (\<lambda>y. y \<le> 1), two_digits (\<lambda>x. 1 \<le> x \<and> x \<le> 2) (\<lambda>y. True),
               two_digits (\<lambda>x. x = 0) (\<lambda>y. 1 \<le> y), one_digit (\<lambda>x. 1 \<le> x),
               space_digit (\<lambda>x. 1 \<le> x)]"

definition strp_m :: "nat directive" where
  "strp_m =
     first_of [two_digits (\<lambda>x. x = 1) (\<lambda>y. y \<le> 2), two_digits (\<lambda>x. x = 0) (\<lambda>y. 1 \<le> y),
               one_digit (\<lambda>x. 1 \<le> x)]"

definition strp_I :: "nat directive" where
  "strp_I =
     first_of [two_digits (\<lambda>x. x = 1) (\<lambda>y. y \<le> 2), two_digits (\<lambda>x. x = 0) (\<lambda>y. 1 \<le> y),
               one_digit (\<lambda>x. 1 \<le> x)]"

definition strp_M :: "nat directive" where
  "strp_M = first_of [two_digits (\<lambda>x. x \<le> 5) (\<lambda>y. True), one_digit (\<lambda>x. True)]"

definition strp_Y :: "nat directive" where
  "strp_Y s =
     (case two_digits (\<lambda>x. True) (\<lambda>y. True) s of
        Some (hi, r) \<Rightarrow>
          (case two_digits (\<lambda>x. True) (\<lambda>y. True) r of
             Some (lo, r') \<Rightarrow> Some (100 * hi + lo, r')
           | None \<Rightarrow> None)
      | None \<Rightarrow> None)"

text \<open>\<^verbatim>\<open>%p\<close> yields whether the text says PM.\<close>

definition strp_p :: "bool directive" where
  "strp_p s =
     (case s of
        a # b # r \<Rightarrow>
          if lower [a, b] = ''am'' then Some (False, r)
          else if lower [a, b] = ''pm'' then Some (True, r)
          else None
      | _ \<Rightarrow> None)"

definition strp_lit :: "char \<Rightarrow> string \<Rightarrow> string option" where
  "strp_lit c s = (case s of a # r \<Rightarrow> if a = c then Some r else None | [] \<Rightarrow> None)"

definition is_space :: "char \<Rightarrow> bool" where
  "is_space c = (c \<in> set [CHR '' '', CHR 0x09, CHR 0x0A, CHR 0x0B, CHR 0x0C, CHR 0x0D])"

definition strp_ws :: "string \<Rightarrow> string option" where
  "strp_ws s =
     (case s of a # r \<Rightarrow> if is_space a then Some (dropWhile is_space r) else None | [] \<Rightarrow> None)"

text \<open>
  The fields found go to the \<^verbatim>\<open>datetime\<close> constructor, whose range checks raise
  \<^verbatim>\<open>ValueError\<close> as well (year 0, 31 April, 29 February of a common year).
\<close>

definition make_datetime :: "nat \<Rightarrow> nat \<Rightarrow> nat \<Rightarrow> nat \<Rightarrow> nat \<Rightarrow> datetime option" where
  "make_datetime y m d h mi =
     (if valid_date y m d \<and> h < 24 \<and> mi < 60
      then Some \<lparr>year = y, month = m, day = d, hour = h, minute = mi, second = 0, microsecond = 0\<rparr>
      else None)"

text \<open>The date part \<^verbatim>\<open>%d/%m/%Y\<close> shared by both formats: day, month, year and the rest.\<close>

definition strp_dmY :: "(nat \<times> nat \<times> nat) directive" where
  "strp_dmY s =
     (case strp_d s of None \<Rightarrow> None | Some (d, r1) \<Rightarrow>
      case strp_lit CHR ''/'' r1 of None \<Rightarrow> None | Some r2 \<Rightarrow>
      case strp_m r2 of None \<Rightarrow> None | Some (m, r3) \<Rightarrow>
      case strp_lit CHR ''/'' r3 of None \<Rightarrow> None | Some r4 \<Rightarrow>
      case strp_Y r4 of None \<Rightarrow> None | Some (y, r5) \<Rightarrow> Some ((d, m, y), r5))"

text \<open>\<^verbatim>\<open>datetime.datetime.strptime(s, '%d/%m/%Y')\<close>\<close>

definition strptime_date :: "string \<Rightarrow> datetime option" where
  "strptime_date s =
     (case strp_dmY s of None \<Rightarrow> None | Some ((d, m, y), r) \<Rightarrow>
      if r \<noteq> [] then None else make_datetime y m d 0 0)"

text \<open>The 12-hour clock: 12 AM is hour 0, 12 PM is hour 12.\<close>

definition hour24 :: "nat \<Rightarrow> bool \<Rightarrow> nat" where
  "hour24 h pm = (if pm then (if h \<noteq> 12 then h + 12 else h) else (if h = 12 then 0 else h))"

text \<open>\<^verbatim>\<open>datetime.datetime.strptime(s, '%d/%m/%Y %I:%M %p')\<close>\<close>

definition strptime_datetime :: "string \<Rightarrow> datetime option" where
  "strptime_datetime s =
     (case strp_dmY s of None \<Rightarrow> None | Some ((d, m, y), r1) \<Rightarrow>
      case strp_ws r1 of None \<Rightarrow> None | Some r2 \<Rightarrow>
      case strp_I r2 of None \<Rightarrow> None | Some (h, r3) \<Rightarrow>
      case strp_lit CHR '':'' r3 of None \<Rightarrow> None | Some r4 \<Rightarrow>
      case strp_M r4 of None \<Rightarrow> None | Some (mi, r5) \<Rightarrow>
      case strp_ws r5 of None \<Rightarrow> None | Some r6 \<Rightarrow>
      case strp_p r6 of None \<Rightarrow> None | Some (pm, r7) \<Rightarrow>
      if r7 \<noteq> [] then None else make_datetime y m d (hour24 h pm) mi)"

subsection \<open>\<^verbatim>\<open>re\<close>: patterns, backtracking, \<^verbatim>\<open>search\<close>, \<^verbatim>\<open>group\<close>\<close>

text \<open>
  The constructs the three patterns use: literal text, a character class repeated
  \<^verbatim>\<open>{lo,hi}\<close> or \<^verbatim>\<open>+\<close> times (greedy), sequence, \<^verbatim>\<open>?\<close> (greedy) and a numbered group.
  A class is the string between its brackets.
\<close>

datatype regex =
  Lit string
| Rep string nat nat
| Plus string
| Seq regex regex
| Opt regex
| Grp nat regex

type_synonym groups = "(nat \<times> string) list"

definition run_length :: "string \<Rightarrow> string \<Rightarrow> nat" where
  "run_length cls s = length (takeWhile (\<lambda>c. c \<in> set cls) s)"

text \<open>
  \<open>rmatch r s g\<close> lists every way \<open>r\<close> matches at the start of \<open>s\<close>, as the rest of the
  text with the groups set so far, in the order a backtracking matcher tries them: longer
  repetitions first, an optional part taken before it is skipped.
\<close>

fun rmatch :: "regex \<Rightarrow> string \<Rightarrow> groups \<Rightarrow> (string \<times> groups) list" where
  "rmatch (Lit w) s g = (if take (length w) s = w then [(drop (length w) s, g)] else [])"
| "rmatch (Rep cls lo hi) s g =
     map (\<lambda>k. (drop k s, g)) (rev [lo..<Suc (min hi (run_length cls s))])"
| "rmatch (Plus cls) s g = map (\<lambda>k. (drop k s, g)) (rev [1..<Suc (run_length cls s)])"
| "rmatch (Seq a b) s g = concat (map (\<lambda>(s', g'). rmatch b s' g') (rmatch a s g))"
| "rmatch (Opt a) s g = rmatch a s g @ [(s, g)]"
| "rmatch (Grp i a) s g =
     map (\<lambda>(s', g'). (s', (i, take (length s - length s') s) # g')) (rmatch a s g)"

text \<open>\<^verbatim>\<open>pattern.match\<close>: the first way; \<^verbatim>\<open>pattern.search\<close>: the leftmost start that has one.\<close>

definition re_match :: "regex \<Rightarrow> string \<Rightarrow> groups option" where
  "re_match r s = (case rmatch r s [] of [] \<Rightarrow> None | (s', g) # _ \<Rightarrow> Some g)"

fun re_search :: "regex \<Rightarrow> string \<Rightarrow> groups option" where
  "re_search r [] = re_match r []"
| "re_search r (c # cs) =
     (case re_match r (c # cs) of Some g \<Rightarrow> Some g | None \<Rightarrow> re_search r cs)"

declare re_search.simps [simp del]

text \<open>\<^verbatim>\<open>match.group(i)\<close>: \<open>None\<close> for a group that took no part in the match.\<close>

definition group :: "groups \<Rightarrow> nat \<Rightarrow> string option" where
  "group g i = map_of g i"

section \<open>\<^verbatim>\<open>time_parser.py\<close>\<close>

text \<open>
  The module's names, without the leading underscore that Isabelle does not allow.
\<close>

definition digit :: string where
  "digit = ''0123456789''"

text \<open>\<^verbatim>\<open>r'every ([mon|tue|wed|thu|fri|sat|sun|day|weekday|weekend]+)'\<close>\<close>

definition PERIOD_REGEX :: regex where
  "PERIOD_REGEX =
     Seq (Lit ''every '') (Grp 1 (Plus ''mon|tue|wed|thu|fri|sat|sun|day|weekday|weekend''))"

text \<open>\<^verbatim>\<open>\d{1,2}/\d{1,2}/\d{1,4}\<close>\<close>

definition DATE_TEXT :: regex where
  "DATE_TEXT =
     Seq (Rep digit 1 2) (Seq (Lit ''/'') (Seq (Rep digit 1 2) (Seq (Lit ''/'') (Rep digit 1 4))))"

text \<open>\<^verbatim>\<open>r'date: (\d{1,2}/\d{1,2}/\d{1,4})-?(\d{1,2}/\d{1,2}/\d{1,4})?'\<close>\<close>

definition DATE_REGEX :: regex where
  "DATE_REGEX =
     Seq (Lit ''date: '') (Seq (Grp 1 DATE_TEXT) (Seq (Opt (Lit ''-'')) (Opt (Grp 2 DATE_TEXT))))"

text \<open>\<^verbatim>\<open>\d{1,2}:\d{1,2} [A|P]M\<close>\<close>

definition TIME_TEXT :: regex where
  "TIME_TEXT =
     Seq (Rep digit 1 2) (Seq (Lit '':'') (Seq (Rep digit 1 2)
       (Seq (Lit '' '') (Seq (Rep ''A|P'' 1 1) (Lit ''M'')))))"

text \<open>\<^verbatim>\<open>r'time: (\d{1,2}:\d{1,2} [A|P]M)-?(\d{1,2}:\d{1,2} [A|P]M)?'\<close>\<close>

definition TIME_REGEX :: regex where
  "TIME_REGEX =
     Seq (Lit ''time: '') (Seq (Grp 1 TIME_TEXT) (Seq (Opt (Lit ''-'')) (Opt (Grp 2 TIME_TEXT))))"

definition WEEKEND_DAYS :: "nat set" where
  "WEEKEND_DAYS = {5, 6}"

definition ParsePeriod :: "datetime \<Rightarrow> string \<Rightarrow> error + bool" where
  "ParsePeriod date_time string =
     (case re_search PERIOD_REGEX string of
        Some m \<Rightarrow>
          (case group m 1 of
             None \<Rightarrow> Inl AttributeError
           | Some g \<Rightarrow>
               (let period = lower g in
                if period = ''day'' then Inr True
                else if period = ''weekend'' then Inr (weekday date_time \<in> WEEKEND_DAYS)
                else if period = ''weekday'' then Inr (weekday date_time \<notin> WEEKEND_DAYS)
                else (let day_name = strftime_a date_time in Inr (lower day_name = period))))
      | None \<Rightarrow> Inr True)"

text \<open>
  In \<^verbatim>\<open>_ParseDate\<close> and \<^verbatim>\<open>_ParseTime\<close> the \<^verbatim>\<open>try\<close> block turns the \<^verbatim>\<open>ValueError\<close> of
  \<^verbatim>\<open>strptime\<close> into \<^verbatim>\<open>ParseError\<close>. \<^verbatim>\<open>strptime(None, ...)\<close> and \<^verbatim>\<open>str + None\<close> raise
  \<^verbatim>\<open>TypeError\<close>, which the block does not catch. \<open>available\<close> starts as \<open>True\<close>, so the
  first \<^verbatim>\<open>available and ...\<close> is the check itself.
\<close>

definition ParseDate :: "datetime \<Rightarrow> string \<Rightarrow> error + bool" where
  "ParseDate date_time string =
     (case re_search DATE_REGEX string of
        None \<Rightarrow> Inr True
      | Some m \<Rightarrow>
          (case group m 2 of
             Some e \<Rightarrow>
               (case strptime_date e of
                  None \<Rightarrow> Inl ParseError
                | Some end_date \<Rightarrow>
                    (let available = date_le (date_of date_time) (date_of end_date) in
                     case group m 1 of
                       None \<Rightarrow> Inl TypeError
                     | Some s \<Rightarrow>
                         (case strptime_date s of
                            None \<Rightarrow> Inl ParseError
                          | Some start_date \<Rightarrow>
                              Inr (available \<and> datetime_le start_date date_time))))
           | None \<Rightarrow>
               (case group m 1 of
                  None \<Rightarrow> Inl TypeError
                | Some s \<Rightarrow>
                    (case strptime_date s of
                       None \<Rightarrow> Inl ParseError
                     | Some start_date \<Rightarrow>
                         (let available = datetime_le start_date date_time in
                          Inr (available \<and> date_of start_date = date_of date_time))))))"

definition ParseTime :: "datetime \<Rightarrow> string \<Rightarrow> error + bool" where
  "ParseTime date_time string =
     (case re_search TIME_REGEX string of
        None \<Rightarrow> Inr True
      | Some m \<Rightarrow>
          (let str_date_time = strftime_dmY date_time in
           case group m 2 of
             Some e \<Rightarrow>
               (case strptime_datetime (str_date_time @ e) of
                  None \<Rightarrow> Inl ParseError
                | Some end_time \<Rightarrow>
                    (let available = datetime_le date_time end_time in
                     case group m 1 of
                       None \<Rightarrow> Inl TypeError
                     | Some s \<Rightarrow>
                         (case strptime_datetime (str_date_time @ s) of
                            None \<Rightarrow> Inl ParseError
                          | Some start_time \<Rightarrow>
                              Inr (available \<and> datetime_le start_time date_time))))
           | None \<Rightarrow>
               (case group m 1 of
                  None \<Rightarrow> Inl TypeError
                | Some s \<Rightarrow>
                    (case strptime_datetime (str_date_time @ s) of
                       None \<Rightarrow> Inl ParseError
                     | Some start_time \<Rightarrow>
                         (let available = (start_time = date_time) in
                          Inr (available \<and> datetime_le start_time date_time))))))"

text \<open>
  Python's \<^verbatim>\<open>a and b\<close>: \<open>b\<close> is evaluated only when \<open>a\<close> is true, so an exception of \<open>b\<close>
  is raised only then.
\<close>

definition py_and :: "error + bool \<Rightarrow> error + bool \<Rightarrow> error + bool" where
  "py_and a b = (case a of Inl e \<Rightarrow> Inl e | Inr x \<Rightarrow> if x then b else Inr False)"

definition IsAvailable :: "datetime \<Rightarrow> string \<Rightarrow> error + bool" where
  "IsAvailable date_time string =
     py_and (ParsePeriod date_time string)
       (py_and (ParseDate date_time string) (ParseTime date_time string))"

text \<open>The instant of the module's test: Friday 10 January 2014, 15:00.\<close>

definition friday_3pm :: datetime where
  "friday_3pm =
     \<lparr>year = 2014, month = 1, day = 10, hour = 15, minute = 0, second = 0, microsecond = 0\<rparr>"

text \<open>A Monday at the same hour: 13 January 2014, 15:00.\<close>

definition monday_3pm :: datetime where
  "monday_3pm =
     \<lparr>year = 2014, month = 1, day = 13, hour = 15, minute = 0, second = 0, microsecond = 0\<rparr>"

text \<open>The same day and hour in the year 999.\<close>

definition year_999 :: datetime where
  "year_999 =
     \<lparr>year = 999, month = 1, day = 10, hour = 15, minute = 0, second = 0, microsecond = 0\<rparr>"

section \<open>Notions of the specification\<close>

text \<open>The time of day of an instant, as \<^verbatim>\<open>datetime.time()\<close> compares it.\<close>

definition time_of :: "datetime \<Rightarrow> nat \<times> nat \<times> nat \<times> nat" where
  "time_of t = (hour t, minute t, second t, microsecond t)"




section \<open>Facts about the library model\<close>

subsection \<open>Groups of a match\<close>

lemma rmatch_Seq:
  "(s', g') \<in> set (rmatch (Seq a b) s g) \<Longrightarrow>
     \<exists>s1 g1. (s1, g1) \<in> set (rmatch a s g) \<and> (s', g') \<in> set (rmatch b s1 g1)"
  by auto

lemma rmatch_Grp:
  "(s', g') \<in> set (rmatch (Grp i a) s g) \<Longrightarrow>
     \<exists>x g0. g' = (i, x) # g0 \<and> (s', g0) \<in> set (rmatch a s g)"
  by auto

lemma rmatch_keeps: "(s', g') \<in> set (rmatch r s g) \<Longrightarrow> set g \<subseteq> set g'"
proof (induction r arbitrary: s g s' g')
  case (Seq a b)
  from rmatch_Seq [OF Seq.prems] obtain s1 g1 where
    "(s1, g1) \<in> set (rmatch a s g)" "(s', g') \<in> set (rmatch b s1 g1)"
    by blast
  with Seq.IH show ?case by blast
next
  case (Opt a)
  from Opt.prems have "(s', g') \<in> set (rmatch a s g) \<or> g' = g" by auto
  with Opt.IH show ?case by blast
next
  case (Grp i a)
  from rmatch_Grp [OF Grp.prems] obtain x g0 where
    "g' = (i, x) # g0" "(s', g0) \<in> set (rmatch a s g)"
    by blast
  with Grp.IH [of s' g0 s g] show ?case by auto
qed (auto split: if_splits)

lemma rmatch_first_group:
  assumes "(s', g') \<in> set (rmatch (Seq (Lit w) (Seq (Grp i a) b)) s g)"
  shows "i \<in> fst ` set g'"
proof -
  from rmatch_Seq [OF assms] obtain s1 g1 where
    "(s', g') \<in> set (rmatch (Seq (Grp i a) b) s1 g1)"
    by blast
  from rmatch_Seq [OF this] obtain s2 g2 where
    grp: "(s2, g2) \<in> set (rmatch (Grp i a) s1 g1)" and rest: "(s', g') \<in> set (rmatch b s2 g2)"
    by blast
  from rmatch_Grp [OF grp] have "i \<in> fst ` set g2" by force
  with rmatch_keeps [OF rest] show ?thesis by auto
qed

lemma rmatch_only_group:
  assumes "(s', g') \<in> set (rmatch (Seq (Lit w) (Grp i a)) s g)"
  shows "i \<in> fst ` set g'"
proof -
  from rmatch_Seq [OF assms] obtain s1 g1 where
    "(s', g') \<in> set (rmatch (Grp i a) s1 g1)"
    by blast
  from rmatch_Grp [OF this] show ?thesis by force
qed

lemma re_match_Some: "re_match r s = Some g \<Longrightarrow> \<exists>s'. (s', g) \<in> set (rmatch r s [])"
  by (auto simp: re_match_def split: list.splits)

lemma re_search_Some: "re_search r s = Some g \<Longrightarrow> \<exists>t s'. (s', g) \<in> set (rmatch r t [])"
proof (induction s)
  case Nil
  then show ?case by (metis re_search.simps(1) re_match_Some)
next
  case (Cons c cs)
  show ?case
  proof (cases "re_match r (c # cs)")
    case None
    with Cons show ?thesis by (simp add: re_search.simps)
  next
    case (Some h)
    with Cons.prems have "re_match r (c # cs) = Some g" by (simp add: re_search.simps)
    then show ?thesis by (metis re_match_Some)
  qed
qed

lemma group_defined: "i \<in> fst ` set g \<Longrightarrow> \<exists>x. group g i = Some x"
  by (cases "map_of g i") (auto simp: group_def map_of_eq_None_iff)

lemma period_group_1: "re_search PERIOD_REGEX s = Some m \<Longrightarrow> \<exists>x. group m 1 = Some x"
  unfolding PERIOD_REGEX_def by (blast dest: re_search_Some rmatch_only_group intro: group_defined)


lemma time_group_1: "re_search TIME_REGEX s = Some m \<Longrightarrow> \<exists>x. group m 1 = Some x"
  unfolding TIME_REGEX_def by (blast dest: re_search_Some rmatch_first_group intro: group_defined)

subsection \<open>Day names\<close>

lemma weekday_less_7: "weekday t < 7"
  by (simp add: weekday_def)

lemma strftime_a_cases:
  "strftime_a t \<in> {''Mon'', ''Tue'', ''Wed'', ''Thu'', ''Fri'', ''Sat'', ''Sun''}"
proof -
  have "weekday t < 7" by (rule weekday_less_7)
  then have "weekday t = 0 \<or> weekday t = 1 \<or> weekday t = 2 \<or> weekday t = 3 \<or>
    weekday t = 4 \<or> weekday t = 5 \<or> weekday t = 6" by arith
  then show ?thesis
    unfolding strftime_a_def DAY_NAMES_def by (elim disjE) simp_all
qed

lemma lower_strftime_a:
  "lower (strftime_a t) \<in> {''mon'', ''tue'', ''wed'', ''thu'', ''fri'', ''sat'', ''sun''}"
  using strftime_a_cases [of t] by (auto simp: lower_def lower_char_def)

subsection \<open>Dates read back from their own text\<close>



lemma digit_val_digit_char: "digit_val (digit_char n) = Some (n mod 10)"
proof -
  have "n mod 10 < 10" by simp
  then have "n mod 10 = 0 \<or> n mod 10 = 1 \<or> n mod 10 = 2 \<or> n mod 10 = 3 \<or> n mod 10 = 4 \<or>
    n mod 10 = 5 \<or> n mod 10 = 6 \<or> n mod 10 = 7 \<or> n mod 10 = 8 \<or> n mod 10 = 9" by arith
  then show ?thesis
    unfolding digit_char_def digit_val_def by (elim disjE) simp_all
qed

lemma two_digits_fmt2:
  "two_digits P Q (fmt2 n @ r) =
     (if P (n div 10 mod 10) \<and> Q (n mod 10) then Some (10 * (n div 10 mod 10) + n mod 10, r)
      else None)"
  by (simp add: two_digits_def fmt2_def digit_val_digit_char)

lemma two_digits_fmt2_split:
  assumes "a < 10" "b < 10"
  shows "two_digits P Q (fmt2 (10 * a + b) @ r) =
     (if P a \<and> Q b then Some (10 * a + b, r) else None)"
  using assms by (simp add: two_digits_fmt2)

lemma strp_d_fmt2:
  assumes "1 \<le> d" "d \<le> 31"
  shows "strp_d (fmt2 d @ r) = Some (d, r)"
proof -
  from assms consider "d < 10" | "10 \<le> d" "d < 20" | "20 \<le> d" "d < 30" | "30 \<le> d" "d < 32"
    by linarith
  then show ?thesis
  proof cases
    case 1
    with assms two_digits_fmt2_split [of 0 d _ _ r] show ?thesis
      by (simp add: strp_d_def)
  next
    case 2
    then obtain b where "d = 10 * 1 + b" "b < 10"
      using that [of "d - 10"] by simp
    with two_digits_fmt2_split [of 1 b _ _ r] show ?thesis
      by (simp add: strp_d_def)
  next
    case 3
    then obtain b where "d = 10 * 2 + b" "b < 10"
      using that [of "d - 20"] by simp
    with two_digits_fmt2_split [of 2 b _ _ r] show ?thesis
      by (simp add: strp_d_def)
  next
    case 4
    then obtain b where "d = 10 * 3 + b" "b \<le> 1"
      using that [of "d - 30"] by simp
    with two_digits_fmt2_split [of 3 b _ _ r] show ?thesis
      by (simp add: strp_d_def)
  qed
qed

lemma strp_m_fmt2:
  assumes "1 \<le> m" "m \<le> 12"
  shows "strp_m (fmt2 m @ r) = Some (m, r)"
proof -
  from assms consider "m < 10" | "10 \<le> m" "m < 13"
    by linarith
  then show ?thesis
  proof cases
    case 1
    with assms two_digits_fmt2_split [of 0 m _ _ r] show ?thesis
      by (simp add: strp_m_def)
  next
    case 2
    then obtain b where "m = 10 * 1 + b" "b \<le> 2"
      using that [of "m - 10"] by simp
    with two_digits_fmt2_split [of 1 b _ _ r] show ?thesis
      by (simp add: strp_m_def)
  qed
qed

lemma strp_Y_fmt4:
  assumes "y \<le> 9999"
  shows "strp_Y (fmt4 y @ r) = Some (y, r)"
proof -
  define q1 r0 where "q1 = y div 10" and "r0 = y mod 10"
  define q2 r1 where "q2 = q1 div 10" and "r1 = q1 mod 10"
  define q3 r2 where "q3 = q2 div 10" and "r2 = q2 mod 10"
  have e0: "y = 10 * q1 + r0" by (simp add: q1_def r0_def)
  have e1: "q1 = 10 * q2 + r1" by (simp add: q2_def r1_def)
  have e2: "q2 = 10 * q3 + r2" by (simp add: q3_def r2_def)
  from e0 e1 e2 assms have "q3 < 10" by linarith
  then have m3: "q3 mod 10 = q3" by simp
  have "y div 100 = y div (10 * 10)" by simp
  also have "\<dots> = q2" unfolding div_mult2_eq by (simp add: q2_def q1_def)
  finally have d100: "y div 100 = q2" .
  have "y div 1000 = y div (10 * 100)" by simp
  also have "\<dots> = q1 div 100" unfolding div_mult2_eq by (simp add: q1_def)
  also have "\<dots> = q1 div (10 * 10)" by simp
  also have "\<dots> = q3" unfolding div_mult2_eq by (simp add: q3_def q2_def)
  finally have d1000: "y div 1000 = q3" .
  have chars: "fmt4 y @ r = digit_char q3 # digit_char q2 # digit_char q1 # digit_char y # r"
    by (simp add: fmt4_def d100 d1000 q1_def)
  have "100 * (10 * q3 + r2) + (10 * r1 + r0) = 10 * (10 * (10 * q3 + r2) + r1) + r0"
    by simp
  with e0 e1 e2 have "100 * (10 * q3 + r2) + (10 * r1 + r0) = y" by metis
  then show ?thesis
    by (simp add: strp_Y_def two_digits_def chars digit_val_digit_char m3
        r0_def [symmetric] r1_def [symmetric] r2_def [symmetric])
qed

lemma decimal_four:
  assumes "1000 \<le> y" "y \<le> 9999"
  shows "decimal y = fmt4 y"
proof -
  define q1 where "q1 = y div 10"
  define q2 where "q2 = q1 div 10"
  define q3 where "q3 = q2 div 10"
  define r0 r1 r2 where "r0 = y mod 10" and "r1 = q1 mod 10" and "r2 = q2 mod 10"
  have "y = 10 * q1 + r0" "q1 = 10 * q2 + r1" "q2 = 10 * q3 + r2"
    "r0 < 10" "r1 < 10" "r2 < 10"
    by (simp_all add: q1_def q2_def q3_def r0_def r1_def r2_def)
  with assms have big: "\<not> y < 10" "\<not> q1 < 10" "\<not> q2 < 10" and small: "q3 < 10"
    by linarith+
  have "y div 100 = y div (10 * 10)" by simp
  also have "\<dots> = q2" unfolding div_mult2_eq by (simp add: q2_def q1_def)
  finally have d100: "y div 100 = q2" .
  have "y div 1000 = y div (10 * 100)" by simp
  also have "\<dots> = q1 div 100" unfolding div_mult2_eq by (simp add: q1_def)
  also have "\<dots> = q1 div (10 * 10)" by simp
  also have "\<dots> = q3" unfolding div_mult2_eq by (simp add: q3_def q2_def)
  finally have d1000: "y div 1000 = q3" .
  have "decimal y = decimal q1 @ [digit_char y]"
    using big(1) by (subst decimal.simps) (simp add: q1_def)
  also have "decimal q1 = decimal q2 @ [digit_char q1]"
    using big(2) by (subst decimal.simps) (simp add: q2_def)
  also have "decimal q2 = decimal q3 @ [digit_char q2]"
    using big(3) by (subst decimal.simps) (simp add: q3_def)
  also have "decimal q3 = [digit_char q3]"
    using small by (subst decimal.simps) simp
  finally show ?thesis
    by (simp add: fmt4_def d100 d1000 q1_def)
qed

text \<open>A year before 1000 is printed with fewer than four digits, and \<^verbatim>\<open>%Y\<close> rejects it.\<close>

lemma decimal_short:
  assumes "y < 1000"
  obtains "decimal y = [digit_char y]"
  | a where "decimal y = [digit_char a, digit_char y]"
  | a b where "decimal y = [digit_char a, digit_char b, digit_char y]"
proof -
  define q1 where "q1 = y div 10"
  define q2 where "q2 = q1 div 10"
  define r0 r1 where "r0 = y mod 10" and "r1 = q1 mod 10"
  have eqs: "y = 10 * q1 + r0" "q1 = 10 * q2 + r1" "r0 < 10" "r1 < 10"
    by (simp_all add: q1_def q2_def r0_def r1_def)
  with assms have q2: "q2 < 10" by linarith
  show ?thesis
  proof (cases "y < 10")
    case True
    then have "decimal y = [digit_char y]" by (subst decimal.simps) simp
    then show ?thesis by (rule that(1))
  next
    case False
    then have y: "decimal y = decimal q1 @ [digit_char y]"
      by (subst decimal.simps) (simp add: q1_def)
    show ?thesis
    proof (cases "q1 < 10")
      case True
      then have "decimal q1 = [digit_char q1]" by (subst decimal.simps) simp
      with y have "decimal y = [digit_char q1, digit_char y]" by simp
      then show ?thesis by (rule that(2))
    next
      case False
      then have "decimal q1 = decimal q2 @ [digit_char q1]"
        by (subst decimal.simps) (simp add: q2_def)
      moreover from q2 have "decimal q2 = [digit_char q2]" by (subst decimal.simps) simp
      ultimately have "decimal y = [digit_char q2, digit_char q1, digit_char y]"
        using y by simp
      then show ?thesis by (rule that(3))
    qed
  qed
qed

lemma digit_val_space: "digit_val (CHR '' '') = None"
  by (simp add: digit_val_def)

lemma strp_Y_short:
  assumes "y < 1000"
  shows "strp_Y (decimal y @ CHR '' '' # r) = None"
  using assms
proof (cases y rule: decimal_short)
  case 1
  then show ?thesis
    by (simp add: strp_Y_def two_digits_def digit_val_digit_char digit_val_space)
next
  case (2 a)
  then show ?thesis
    by (simp add: strp_Y_def two_digits_def digit_val_digit_char digit_val_space
        split: list.splits)
next
  case (3 a b)
  then show ?thesis
    by (simp add: strp_Y_def two_digits_def digit_val_digit_char digit_val_space)
qed

lemma strp_dm_strftime:
  assumes "valid_datetime t"
  shows "strp_d (fmt2 (day t) @ r) = Some (day t, r)"
    and "strp_m (fmt2 (month t) @ r) = Some (month t, r)"
proof -
  from assms have m: "1 \<le> month t" "month t \<le> 12"
    and d1: "1 \<le> day t" and d2: "day t \<le> days_in_month (year t) (month t)"
    by (simp_all add: valid_datetime_def valid_date_def)
  from m have "month t = 1 \<or> month t = 2 \<or> month t = 3 \<or> month t = 4 \<or> month t = 5 \<or>
    month t = 6 \<or> month t = 7 \<or> month t = 8 \<or> month t = 9 \<or> month t = 10 \<or> month t = 11 \<or>
    month t = 12" by arith
  then have "days_in_month (year t) (month t) \<le> 31"
    unfolding days_in_month_def DAYS_IN_MONTH_def by (elim disjE) simp_all
  with d2 have d3: "day t \<le> 31" by simp
  show "strp_d (fmt2 (day t) @ r) = Some (day t, r)" by (rule strp_d_fmt2 [OF d1 d3])
  show "strp_m (fmt2 (month t) @ r) = Some (month t, r)" by (rule strp_m_fmt2 [OF m])
qed

lemma strp_dmY_short_year:
  assumes "valid_datetime t" "year t < 1000"
  shows "strp_dmY (strftime_dmY t @ r) = None"
  using strp_dm_strftime [OF assms(1)] strp_Y_short [OF assms(2)]
  by (simp add: strp_dmY_def strftime_dmY_def strp_lit_def)

lemma strptime_datetime_short_year:
  assumes "valid_datetime t" "year t < 1000"
  shows "strptime_datetime (strftime_dmY t @ r) = None"
  using strp_dmY_short_year [OF assms] by (simp add: strptime_datetime_def)

lemma strp_dmY_strftime:
  assumes "valid_datetime t" "1000 \<le> year t"
  shows "strp_dmY (strftime_dmY t @ r) = Some ((day t, month t, year t), CHR '' '' # r)"
proof -
  from assms(1) have y: "year t \<le> 9999"
    by (simp add: valid_datetime_def valid_date_def)
  show ?thesis
    using strp_dm_strftime [OF assms(1)] strp_Y_fmt4 [OF y] decimal_four [OF assms(2) y]
    by (simp add: strp_dmY_def strftime_dmY_def strp_lit_def)
qed

lemma strptime_datetime_fields:
  assumes "strptime_datetime s = Some u"
  obtains d m y r h mi where "strp_dmY s = Some ((d, m, y), r)" "make_datetime y m d h mi = Some u"
  using assms unfolding strptime_datetime_def
  by (auto split: option.splits if_splits)

lemma make_datetime_Some:
  assumes "make_datetime y m d h mi = Some u"
  shows "year u = y \<and> month u = m \<and> day u = d \<and> hour u = h \<and> minute u = mi \<and>
         second u = 0 \<and> microsecond u = 0 \<and> valid_datetime u"
  using assms by (auto simp: make_datetime_def valid_datetime_def split: if_splits)

lemma strptime_datetime_pinned:
  assumes "valid_datetime t" "strptime_datetime (strftime_dmY t @ r) = Some u"
  shows "date_of u = date_of t \<and> second u = 0 \<and> microsecond u = 0 \<and> valid_datetime u"
proof -
  from assms strptime_datetime_short_year [of t r] have y: "1000 \<le> year t"
    by (cases "year t < 1000") simp_all
  from assms(2) obtain d m y r' h mi where
    "strp_dmY (strftime_dmY t @ r) = Some ((d, m, y), r')" "make_datetime y m d h mi = Some u"
    by (rule strptime_datetime_fields)
  with strp_dmY_strftime [OF assms(1) y, of r]
  have "make_datetime (year t) (month t) (day t) h mi = Some u"
    by simp
  from make_datetime_Some [OF this] show ?thesis by (simp add: date_of_def)
qed

subsection \<open>Every directive hands on a rest of its text\<close>

lemma two_digits_rest: "two_digits P Q s = Some (v, r) \<Longrightarrow> \<exists>p. s = p @ r"
  by (auto simp: two_digits_def split: list.splits option.splits if_splits)

lemma one_digit_rest: "one_digit P s = Some (v, r) \<Longrightarrow> \<exists>p. s = p @ r"
  by (auto simp: one_digit_def split: list.splits option.splits if_splits)

lemma space_digit_rest: "space_digit P s = Some (v, r) \<Longrightarrow> \<exists>p. s = p @ r"
proof -
  assume a: "space_digit P s = Some (v, r)"
  then obtain c s' where s: "s = c # s'" and "one_digit P s' = Some (v, r)"
    by (auto simp: space_digit_def split: list.splits if_splits)
  then obtain p where "s' = p @ r" by (blast dest: one_digit_rest)
  with s have "s = (c # p) @ r" by simp
  then show ?thesis by blast
qed

lemma first_of_Some: "first_of ps s = Some x \<Longrightarrow> \<exists>p \<in> set ps. p s = Some x"
  by (induction ps) (auto split: option.splits)

lemma strp_d_rest: "strp_d s = Some (v, r) \<Longrightarrow> \<exists>p. s = p @ r"
  unfolding strp_d_def
  by (drule first_of_Some) (auto dest: two_digits_rest one_digit_rest space_digit_rest)

lemma strp_m_rest: "strp_m s = Some (v, r) \<Longrightarrow> \<exists>p. s = p @ r"
  unfolding strp_m_def
  by (drule first_of_Some) (auto dest: two_digits_rest one_digit_rest)

lemma strp_I_rest: "strp_I s = Some (v, r) \<Longrightarrow> \<exists>p. s = p @ r"
  unfolding strp_I_def
  by (drule first_of_Some) (auto dest: two_digits_rest one_digit_rest)

lemma strp_M_rest: "strp_M s = Some (v, r) \<Longrightarrow> \<exists>p. s = p @ r"
  unfolding strp_M_def
  by (drule first_of_Some) (auto dest: two_digits_rest one_digit_rest)

lemma strp_Y_rest:
  assumes "strp_Y s = Some (v, r)"
  shows "\<exists>p. s = p @ r"
proof -
  from assms obtain a s1 b where "two_digits (\<lambda>x. True) (\<lambda>y. True) s = Some (a, s1)"
    "two_digits (\<lambda>x. True) (\<lambda>y. True) s1 = Some (b, r)"
    by (auto simp: strp_Y_def split: option.splits)
  then obtain p q where "s = p @ s1" "s1 = q @ r" by (blast dest: two_digits_rest)
  then have "s = (p @ q) @ r" by simp
  then show ?thesis by blast
qed

lemma strp_lit_rest: "strp_lit c s = Some r \<Longrightarrow> s = c # r"
  by (auto simp: strp_lit_def split: list.splits if_splits)

lemma strp_ws_rest:
  assumes "strp_ws s = Some r"
  shows "\<exists>p. s = p @ r"
proof -
  from assms obtain c s' where s: "s = c # s'" and r: "r = dropWhile is_space s'"
    by (auto simp: strp_ws_def split: list.splits if_splits)
  have "s' = takeWhile is_space s' @ dropWhile is_space s'" by simp
  with s r have "s = (c # takeWhile is_space s') @ r" by simp
  then show ?thesis by blast
qed

lemma strp_p_whole:
  assumes "strp_p s = Some (pm, [])"
  shows "\<exists>a b. s = [a, b] \<and> (lower [a, b] = ''am'' \<or> lower [a, b] = ''pm'')"
  using assms by (auto simp: strp_p_def split: list.splits if_splits)

lemma strp_dmY_rest:
  assumes "strp_dmY s = Some (v, r)"
  shows "\<exists>p. s = p @ r"
proof -
  from assms obtain d r1 r2 m r3 r4 y where
    1: "strp_d s = Some (d, r1)" and 2: "strp_lit CHR ''/'' r1 = Some r2" and
    3: "strp_m r2 = Some (m, r3)" and 4: "strp_lit CHR ''/'' r3 = Some r4" and
    5: "strp_Y r4 = Some (y, r)"
    by (auto simp: strp_dmY_def split: option.splits)
  from strp_d_rest [OF 1] strp_lit_rest [OF 2] strp_m_rest [OF 3] strp_lit_rest [OF 4]
    strp_Y_rest [OF 5]
  obtain p1 p3 p5 where "s = p1 @ CHR ''/'' # p3 @ CHR ''/'' # p5 @ r" by auto
  then have "s = (p1 @ CHR ''/'' # p3 @ CHR ''/'' # p5) @ r" by simp
  then show ?thesis by blast
qed

lemma strptime_datetime_meridiem:
  assumes "strptime_datetime s = Some u"
  shows "\<exists>p a b. s = p @ [a, b] \<and> (lower [a, b] = ''am'' \<or> lower [a, b] = ''pm'')"
proof -
  from assms obtain v r1 r2 h r3 r4 mi r5 r6 pm where
    1: "strp_dmY s = Some (v, r1)" and 2: "strp_ws r1 = Some r2" and
    3: "strp_I r2 = Some (h, r3)" and 4: "strp_lit CHR '':'' r3 = Some r4" and
    5: "strp_M r4 = Some (mi, r5)" and 6: "strp_ws r5 = Some r6" and
    7: "strp_p r6 = Some (pm, [])"
    unfolding strptime_datetime_def by (auto split: option.splits if_splits)
  from strp_p_whole [OF 7] obtain a b where
    ab: "r6 = [a, b]" "lower [a, b] = ''am'' \<or> lower [a, b] = ''pm''" by blast
  from strp_dmY_rest [OF 1] strp_ws_rest [OF 2] strp_I_rest [OF 3] strp_lit_rest [OF 4]
    strp_M_rest [OF 5] strp_ws_rest [OF 6]
  obtain p1 p2 p3 p5 p6 where "s = p1 @ p2 @ p3 @ CHR '':'' # p5 @ p6 @ r6" by auto
  with ab(1) have "s = (p1 @ p2 @ p3 @ CHR '':'' # p5 @ p6) @ [a, b]" by simp
  with ab(2) show ?thesis by blast
qed

lemma strptime_datetime_bar:
  "strptime_datetime (x @ t @ ''|M'') = None"
proof (cases "strptime_datetime (x @ t @ ''|M'')")
  case (Some u)
  from strptime_datetime_meridiem [OF Some] obtain p a b where
    eq: "x @ t @ ''|M'' = p @ [a, b]" and ab: "lower [a, b] = ''am'' \<or> lower [a, b] = ''pm''"
    by blast
  from eq have "(x @ t) @ [CHR ''|'', CHR ''M''] = p @ [a, b]" by simp
  then have "a = CHR ''|''" "b = CHR ''M''"
    by (auto simp: append_eq_append_conv)
  with ab show ?thesis by (simp add: lower_def lower_char_def)
qed simp

section \<open>Evaluating the model\<close>

lemmas strp_defs =
  strptime_date_def strptime_datetime_def strp_dmY_def strp_d_def strp_m_def strp_I_def
  strp_M_def strp_Y_def strp_p_def strp_lit_def strp_ws_def is_space_def two_digits_def
  one_digit_def space_digit_def digit_val_def make_datetime_def valid_date_def
  days_in_month_def DAYS_IN_MONTH_def is_leap_def hour24_def lower_def lower_char_def

lemmas strf_defs = strftime_dmY_def fmt2_def decimal.simps digit_char_def

lemmas ord_defs =
  weekday_def toordinal_def ymd2ord_def days_before_year_def days_before_month_def
  DAYS_BEFORE_MONTH_def is_leap_def

lemma weekday_friday_3pm: "weekday friday_3pm = 4"
  by (simp add: ord_defs friday_3pm_def)

lemma strftime_a_friday_3pm: "strftime_a friday_3pm = ''Fri''"
  by (simp add: strftime_a_def weekday_friday_3pm DAY_NAMES_def)

lemma strftime_dmY_friday_3pm: "strftime_dmY friday_3pm = ''10/01/2014 ''"
  by (simp add: strf_defs friday_3pm_def)

lemmas cmp_defs =
  datetime_le_def datetime_key_def date_le_def date_key_def date_of_def time_of_def
  less_eq_prod_def less_prod_def

lemma valid_friday_3pm: "valid_datetime friday_3pm"
  by (simp add: valid_datetime_def valid_date_def days_in_month_def DAYS_IN_MONTH_def
      friday_3pm_def)

lemma weekday_monday_3pm: "weekday monday_3pm = 0"
  by (simp add: ord_defs monday_3pm_def)

lemma strftime_a_monday_3pm: "strftime_a monday_3pm = ''Mon''"
  by (simp add: strftime_a_def weekday_monday_3pm DAY_NAMES_def)

subsection \<open>A Saturday rule with an impossible date, asked on a Friday\<close>

lemma search_period_sat_bad_date:
  "re_search PERIOD_REGEX ''every sat date: 32/13/2014'' = Some [(1, ''sat'')]"
  by code_simp

lemma search_date_sat_bad_date:
  "re_search DATE_REGEX ''every sat date: 32/13/2014'' = Some [(1, ''32/13/2014'')]"
  by code_simp

lemma strptime_date_32_13: "strptime_date ''32/13/2014'' = None"
  by (simp add: strp_defs)

lemma ParsePeriod_sat_bad_date:
  "ParsePeriod friday_3pm ''every sat date: 32/13/2014'' = Inr False"
  by (simp add: ParsePeriod_def search_period_sat_bad_date group_def lower_def lower_char_def
      strftime_a_friday_3pm)

lemma ParseDate_sat_bad_date:
  "ParseDate friday_3pm ''every sat date: 32/13/2014'' = Inl ParseError"
  by (simp add: ParseDate_def search_date_sat_bad_date group_def strptime_date_32_13)

section \<open>The orchestrator\<close>

text \<open>
  C1. \<^verbatim>\<open>IsAvailable\<close> is the conjunction of the period, date and time matchers, taken
  from left to right and stopping at the first false one: when all three return, it
  returns their conjunction; a false period match makes it return false whatever the date
  and time matchers would do, a \<^verbatim>\<open>ParseError\<close> of theirs included; after a true period
  match the date matcher decides in the same way before the time matcher is asked.
\<close>

theorem IsAvailable_short_circuit:
  "(\<forall>p d t. ParsePeriod dt s = Inr p \<longrightarrow> ParseDate dt s = Inr d \<longrightarrow> ParseTime dt s = Inr t \<longrightarrow>
      IsAvailable dt s = Inr (p \<and> d \<and> t)) \<and>
   (ParsePeriod dt s = Inr False \<longrightarrow> IsAvailable dt s = Inr False) \<and>
   (\<forall>e. ParsePeriod dt s = Inr True \<longrightarrow> ParseDate dt s = Inl e \<longrightarrow> IsAvailable dt s = Inl e) \<and>
   (ParsePeriod dt s = Inr True \<longrightarrow> ParseDate dt s = Inr False \<longrightarrow> IsAvailable dt s = Inr False) \<and>
   (ParsePeriod dt s = Inr True \<longrightarrow> ParseDate dt s = Inr True \<longrightarrow>
      IsAvailable dt s = ParseTime dt s)"
  by (simp add: IsAvailable_def py_and_def)

theorem IsAvailable_short_circuit_witness:
  "ParsePeriod friday_3pm ''every sat date: 32/13/2014'' = Inr False \<and>
   ParseDate friday_3pm ''every sat date: 32/13/2014'' = Inl ParseError \<and>
   IsAvailable friday_3pm ''every sat date: 32/13/2014'' = Inr False"
  using IsAvailable_short_circuit [of friday_3pm "''every sat date: 32/13/2014''"]
    ParsePeriod_sat_bad_date ParseDate_sat_bad_date
  by blast

section \<open>The period matcher\<close>

lemma weekday_names:
  "(weekday t = 5) = (strftime_a t = ''Sat'') \<and> (weekday t = 6) = (strftime_a t = ''Sun'')"
proof -
  have "weekday t < 7" by (rule weekday_less_7)
  then have "weekday t = 0 \<or> weekday t = 1 \<or> weekday t = 2 \<or> weekday t = 3 \<or>
    weekday t = 4 \<or> weekday t = 5 \<or> weekday t = 6" by arith
  then show ?thesis
    unfolding strftime_a_def DAY_NAMES_def by (elim disjE) simp_all
qed

lemma search_period_day:
  "re_search PERIOD_REGEX ''every day time: 3:00 PM-5:00 PM'' = Some [(1, ''day'')]"
  by code_simp

lemma search_period_weekday:
  "re_search PERIOD_REGEX ''every weekday time: 3:00 PM-5:00 PM'' = Some [(1, ''weekday'')]"
  by code_simp

lemma search_period_weekend:
  "re_search PERIOD_REGEX ''every weekend time: 3:00 PM-5:00 PM'' = Some [(1, ''weekend'')]"
  by code_simp

text \<open>
  C5. When the period token is \<^verbatim>\<open>day\<close> the period matcher returns true; when it is
  \<^verbatim>\<open>weekend\<close> it returns true iff the instant's weekday is Saturday (5) or Sunday (6);
  when it is \<^verbatim>\<open>weekday\<close> it returns the complement. The weekday numbers 5 and 6 are
  the days that \<^verbatim>\<open>%a\<close> prints as \<^verbatim>\<open>Sat\<close> and \<^verbatim>\<open>Sun\<close>.
\<close>

theorem ParsePeriod_tokens:
  assumes "re_search PERIOD_REGEX s = Some m" and "group m 1 = Some g"
  shows "(lower g = ''day'' \<longrightarrow> ParsePeriod dt s = Inr True) \<and>
         (lower g = ''weekend'' \<longrightarrow> ParsePeriod dt s = Inr (weekday dt = 5 \<or> weekday dt = 6)) \<and>
         (lower g = ''weekday'' \<longrightarrow> ParsePeriod dt s = Inr (\<not> (weekday dt = 5 \<or> weekday dt = 6))) \<and>
         (weekday dt = 5) = (strftime_a dt = ''Sat'') \<and> (weekday dt = 6) = (strftime_a dt = ''Sun'')"
  using assms weekday_names [of dt] by (simp add: ParsePeriod_def WEEKEND_DAYS_def)

theorem ParsePeriod_tokens_witness:
  "ParsePeriod friday_3pm ''every day time: 3:00 PM-5:00 PM'' = Inr True \<and>
   ParsePeriod friday_3pm ''every weekend time: 3:00 PM-5:00 PM'' = Inr False \<and>
   ParsePeriod friday_3pm ''every weekday time: 3:00 PM-5:00 PM'' = Inr True \<and>
   ParsePeriod monday_3pm ''every weekend time: 3:00 PM-5:00 PM'' = Inr False"
  using
    ParsePeriod_tokens [OF search_period_day, of "''day''" friday_3pm]
    ParsePeriod_tokens [OF search_period_weekend, of "''weekend''" friday_3pm]
    ParsePeriod_tokens [OF search_period_weekday, of "''weekday''" friday_3pm]
    ParsePeriod_tokens [OF search_period_weekend, of "''weekend''" monday_3pm]
  by (simp add: group_def lower_def lower_char_def weekday_friday_3pm weekday_monday_3pm)

lemma ParsePeriod_returns: "\<exists>b. ParsePeriod dt s = Inr b"
proof (cases "re_search PERIOD_REGEX s")
  case None
  then show ?thesis by (auto simp: ParsePeriod_def)
next
  case (Some m)
  with period_group_1 obtain g where "group m 1 = Some g" by blast
  with Some show ?thesis by (auto simp: ParsePeriod_def Let_def)
qed

lemma search_period_monday: "re_search PERIOD_REGEX ''every monday'' = Some [(1, ''monday'')]"
  by code_simp

text \<open>
  C8. The period matcher never raises: it always returns a truth value. A token that
  the pattern accepts and that is none of \<^verbatim>\<open>day\<close>, \<^verbatim>\<open>weekend\<close>, \<^verbatim>\<open>weekday\<close> and the seven
  abbreviations (such as \<^verbatim>\<open>monday\<close>) makes it return false.
\<close>

theorem ParsePeriod_never_raises:
  "(\<exists>b. ParsePeriod dt s = Inr b) \<and>
   (\<forall>m g. re_search PERIOD_REGEX s = Some m \<longrightarrow> group m 1 = Some g \<longrightarrow>
      lower g \<notin> {''day'', ''weekend'', ''weekday'',
                  ''mon'', ''tue'', ''wed'', ''thu'', ''fri'', ''sat'', ''sun''} \<longrightarrow>
      ParsePeriod dt s = Inr False)"
proof (intro conjI allI impI)
  show "\<exists>b. ParsePeriod dt s = Inr b"
    by (rule ParsePeriod_returns)
next
  fix m g
  assume "re_search PERIOD_REGEX s = Some m" "group m 1 = Some g"
    and "lower g \<notin> {''day'', ''weekend'', ''weekday'',
                  ''mon'', ''tue'', ''wed'', ''thu'', ''fri'', ''sat'', ''sun''}"
  with lower_strftime_a [of dt] show "ParsePeriod dt s = Inr False"
    by (auto simp: ParsePeriod_def Let_def)
qed

theorem ParsePeriod_never_raises_witness:
  "re_search PERIOD_REGEX ''every monday'' = Some [(1, ''monday'')] \<and>
   strftime_a monday_3pm = ''Mon'' \<and>
   ParsePeriod monday_3pm ''every monday'' = Inr False"
  using ParsePeriod_never_raises [of monday_3pm "''every monday''"]
    search_period_monday strftime_a_monday_3pm
  by (simp add: group_def lower_def lower_char_def)

lemma search_period_FRI: "re_search PERIOD_REGEX ''every FRI'' = None"
  by code_simp

lemma search_date_FRI: "re_search DATE_REGEX ''every FRI'' = None"
  by code_simp

lemma search_time_FRI: "re_search TIME_REGEX ''every FRI'' = None"
  by code_simp

lemma search_period_fRI: "re_search PERIOD_REGEX ''every fRI'' = Some [(1, ''f'')]"
  by code_simp

text \<open>An abbreviation in small letters is compared with the instant's day name.\<close>

lemma ParsePeriod_abbreviation:
  assumes "re_search PERIOD_REGEX s = Some m" and "group m 1 = Some g"
    and "g \<in> {''mon'', ''tue'', ''wed'', ''thu'', ''fri'', ''sat'', ''sun''}"
  shows "ParsePeriod dt s = Inr (lower (strftime_a dt) = g)"
  using assms by (auto simp: ParsePeriod_def lower_def lower_char_def)

text \<open>
  C6. An abbreviation in capitals is not read as the weekday it names. The pattern's
  class holds small letters only, so \<^verbatim>\<open>every FRI\<close> is no period clause at all and the
  rule is open on a Monday, and \<^verbatim>\<open>every fRI\<close> gives the token \<^verbatim>\<open>f\<close>, which no day
  equals, so the rule is closed on a Friday. The \<^verbatim>\<open>lower()\<close> that the module applies to
  the token never sees a capital.
\<close>

theorem upper_case_abbreviation:
  "lower (strftime_a monday_3pm) \<noteq> lower ''FRI'' \<and>
   ParsePeriod monday_3pm ''every FRI'' = Inr True \<and>
   IsAvailable monday_3pm ''every FRI'' = Inr True \<and>
   lower (strftime_a friday_3pm) = lower ''fRI'' \<and>
   ParsePeriod friday_3pm ''every fRI'' = Inr False"
  by (simp add: IsAvailable_def py_and_def ParsePeriod_def ParseDate_def ParseTime_def
      search_period_FRI search_date_FRI search_time_FRI search_period_fRI group_def
      strftime_a_monday_3pm strftime_a_friday_3pm lower_def lower_char_def)

section \<open>Rules without clauses\<close>

lemma search_none_period: "re_search PERIOD_REGEX ''4:00 AM-7:00 PM on 1/1/2014'' = None"
  by code_simp

lemma search_none_date: "re_search DATE_REGEX ''4:00 AM-7:00 PM on 1/1/2014'' = None"
  by code_simp

lemma search_none_time: "re_search TIME_REGEX ''4:00 AM-7:00 PM on 1/1/2014'' = None"
  by code_simp

text \<open>
  C7. A matcher whose clause is absent from the rule returns true: it raises nothing and
  leaves the result to the other two. A rule with none of the three clauses makes
  \<^verbatim>\<open>IsAvailable\<close> return true for every instant.
\<close>

theorem absent_clauses:
  "(re_search PERIOD_REGEX s = None \<longrightarrow> ParsePeriod dt s = Inr True) \<and>
   (re_search DATE_REGEX s = None \<longrightarrow> ParseDate dt s = Inr True) \<and>
   (re_search TIME_REGEX s = None \<longrightarrow> ParseTime dt s = Inr True) \<and>
   (re_search PERIOD_REGEX s = None \<longrightarrow> re_search DATE_REGEX s = None \<longrightarrow>
      re_search TIME_REGEX s = None \<longrightarrow> IsAvailable dt s = Inr True)"
  by (simp add: ParsePeriod_def ParseDate_def ParseTime_def IsAvailable_def py_and_def)

theorem absent_clauses_witness:
  "re_search PERIOD_REGEX ''4:00 AM-7:00 PM on 1/1/2014'' = None \<and>
   re_search DATE_REGEX ''4:00 AM-7:00 PM on 1/1/2014'' = None \<and>
   re_search TIME_REGEX ''4:00 AM-7:00 PM on 1/1/2014'' = None \<and>
   IsAvailable friday_3pm ''4:00 AM-7:00 PM on 1/1/2014'' = Inr True"
  using absent_clauses [of "''4:00 AM-7:00 PM on 1/1/2014''" friday_3pm]
    search_none_period search_none_date search_none_time
  by blast

section \<open>The date matcher\<close>

lemma search_date_range:
  "re_search DATE_REGEX ''date: 1/1/2014-15/1/2014 time: 8:00 AM-5:00 PM'' =
     Some [(2, ''15/1/2014''), (1, ''1/1/2014'')]"
  by code_simp

lemma search_date_single:
  "re_search DATE_REGEX ''every fri date: 10/1/2014 time: 8:00 AM-5:00 PM'' =
     Some [(1, ''10/1/2014'')]"
  by code_simp

lemma strptime_date_1_1_2014:
  "strptime_date ''1/1/2014'' =
     Some \<lparr>year = 2014, month = 1, day = 1, hour = 0, minute = 0, second = 0, microsecond = 0\<rparr>"
  by (simp add: strp_defs)

lemma strptime_date_15_1_2014:
  "strptime_date ''15/1/2014'' =
     Some \<lparr>year = 2014, month = 1, day = 15, hour = 0, minute = 0, second = 0, microsecond = 0\<rparr>"
  by (simp add: strp_defs)

lemma strptime_date_10_1_2014:
  "strptime_date ''10/1/2014'' =
     Some \<lparr>year = 2014, month = 1, day = 10, hour = 0, minute = 0, second = 0, microsecond = 0\<rparr>"
  by (simp add: strp_defs)



lemma search_date_bad_start:
  "re_search DATE_REGEX ''date: 32/1/2014-1/1/2014'' = Some [(2, ''1/1/2014''), (1, ''32/1/2014'')]"
  by code_simp

lemma strptime_date_32_1_2014: "strptime_date ''32/1/2014'' = None"
  by (simp add: strp_defs)

text \<open>
  C9. A failed end-date check does not keep the date matcher from parsing the start
  date: when the end date is valid and lies before the instant's date and the start date
  is invalid, the matcher raises \<^verbatim>\<open>ParseError\<close>; it does not return false.
\<close>

theorem ParseDate_parses_start_after_end_check:
  assumes "re_search DATE_REGEX s = Some m"
    and "group m 2 = Some b" and "strptime_date b = Some end_date"
    and "\<not> date_le (date_of dt) (date_of end_date)"
    and "group m 1 = Some a" and "strptime_date a = None"
  shows "ParseDate dt s = Inl ParseError"
  using assms by (simp add: ParseDate_def)

theorem ParseDate_parses_start_after_end_check_witness:
  "\<not> date_le (date_of friday_3pm)
       (date_of \<lparr>year = 2014, month = 1, day = 1, hour = 0, minute = 0, second = 0, microsecond = 0\<rparr>) \<and>
   ParseDate friday_3pm ''date: 32/1/2014-1/1/2014'' = Inl ParseError"
proof -
  have late: "\<not> date_le (date_of friday_3pm)
       (date_of \<lparr>year = 2014, month = 1, day = 1, hour = 0, minute = 0, second = 0, microsecond = 0\<rparr>)"
    by (simp add: cmp_defs friday_3pm_def)
  from ParseDate_parses_start_after_end_check
    [OF search_date_bad_start _ strptime_date_1_1_2014 late _ strptime_date_32_1_2014]
  have "ParseDate friday_3pm ''date: 32/1/2014-1/1/2014'' = Inl ParseError"
    by (simp add: group_def)
  with late show ?thesis by simp
qed

section \<open>The time matcher\<close>

lemma datetime_eq_iff:
  fixes a b :: datetime
  shows "a = b \<longleftrightarrow> date_of a = date_of b \<and> time_of a = time_of b"
  by (auto simp: date_of_def time_of_def intro: datetime.equality)

lemma datetime_le_refl: "datetime_le a a"
  by (simp add: datetime_le_def)

lemma search_time_range:
  "re_search TIME_REGEX ''every fri time: 8:00 AM-5:00 PM'' =
     Some [(2, ''5:00 PM''), (1, ''8:00 AM'')]"
  by code_simp

lemma search_time_morning:
  "re_search TIME_REGEX ''every day time: 8:00 AM-1:00 PM'' =
     Some [(2, ''1:00 PM''), (1, ''8:00 AM'')]"
  by code_simp

lemma search_time_single: "re_search TIME_REGEX ''time: 3:00 PM'' = Some [(1, ''3:00 PM'')]"
  by code_simp

lemma search_time_1111: "re_search TIME_REGEX ''time: 11:11 AM'' = Some [(1, ''11:11 AM'')]"
  by code_simp

lemma strptime_8_AM:
  "strptime_datetime (strftime_dmY friday_3pm @ ''8:00 AM'') =
     Some \<lparr>year = 2014, month = 1, day = 10, hour = 8, minute = 0, second = 0, microsecond = 0\<rparr>"
  by (simp add: strftime_dmY_friday_3pm strp_defs)

lemma strptime_5_PM:
  "strptime_datetime (strftime_dmY friday_3pm @ ''5:00 PM'') =
     Some \<lparr>year = 2014, month = 1, day = 10, hour = 17, minute = 0, second = 0, microsecond = 0\<rparr>"
  by (simp add: strftime_dmY_friday_3pm strp_defs)

lemma strptime_1_PM:
  "strptime_datetime (strftime_dmY friday_3pm @ ''1:00 PM'') =
     Some \<lparr>year = 2014, month = 1, day = 10, hour = 13, minute = 0, second = 0, microsecond = 0\<rparr>"
  by (simp add: strftime_dmY_friday_3pm strp_defs)

lemma strptime_3_PM:
  "strptime_datetime (strftime_dmY friday_3pm @ ''3:00 PM'') =
     Some \<lparr>year = 2014, month = 1, day = 10, hour = 15, minute = 0, second = 0, microsecond = 0\<rparr>"
  by (simp add: strftime_dmY_friday_3pm strp_defs)

lemma strptime_1111_AM:
  "strptime_datetime (strftime_dmY friday_3pm @ ''11:11 AM'') =
     Some \<lparr>year = 2014, month = 1, day = 10, hour = 11, minute = 11, second = 0, microsecond = 0\<rparr>"
  by (simp add: strftime_dmY_friday_3pm strp_defs)

text \<open>
  When \<^verbatim>\<open>strptime\<close> accepts the start time behind the instant's date, which takes an
  instant from the year 1000 on, the times read are on the instant's own calendar date:
  with a start and an end time the time matcher returns true iff
  start \<open>\<le>\<close> instant \<open>\<le>\<close> end at full precision; with a start time only it returns true iff
  the instant's time of day is the start time.
\<close>

lemma ParseTime_range:
  assumes "valid_datetime dt" and "re_search TIME_REGEX s = Some m" and "group m 1 = Some a"
    and "strptime_datetime (strftime_dmY dt @ a) = Some start_time"
  shows "date_of start_time = date_of dt \<and>
    (\<forall>b end_time. group m 2 = Some b \<longrightarrow>
       strptime_datetime (strftime_dmY dt @ b) = Some end_time \<longrightarrow>
       date_of end_time = date_of dt \<and>
       ParseTime dt s = Inr (datetime_le start_time dt \<and> datetime_le dt end_time)) \<and>
    (group m 2 = None \<longrightarrow> ParseTime dt s = Inr (time_of dt = time_of start_time))"
proof (intro conjI allI impI)
  from strptime_datetime_pinned [OF assms(1, 4)]
  show pinned: "date_of start_time = date_of dt" by simp
  show "date_of end_time = date_of dt"
    if "strptime_datetime (strftime_dmY dt @ b) = Some end_time" for b end_time
    using strptime_datetime_pinned [OF assms(1) that] by simp
  show "ParseTime dt s = Inr (datetime_le start_time dt \<and> datetime_le dt end_time)"
    if "group m 2 = Some b" "strptime_datetime (strftime_dmY dt @ b) = Some end_time"
    for b end_time
    using assms that by (auto simp: ParseTime_def)
  show "ParseTime dt s = Inr (time_of dt = time_of start_time)" if "group m 2 = None"
  proof -
    have "start_time = dt \<longleftrightarrow> time_of dt = time_of start_time"
      using pinned by (auto simp: datetime_eq_iff)
    moreover have "start_time = dt \<Longrightarrow> datetime_le start_time dt"
      by (simp add: datetime_le_refl)
    ultimately show ?thesis
      using assms that by (auto simp: ParseTime_def)
  qed
qed

lemma ParseTime_range_examples:
  "ParseTime friday_3pm ''every fri time: 8:00 AM-5:00 PM'' = Inr True \<and>
   ParseTime friday_3pm ''every day time: 8:00 AM-1:00 PM'' = Inr False \<and>
   ParseTime friday_3pm ''time: 3:00 PM'' = Inr True \<and>
   ParseTime friday_3pm ''time: 11:11 AM'' = Inr False"
  using
    ParseTime_range [OF valid_friday_3pm search_time_range _ strptime_8_AM]
    ParseTime_range [OF valid_friday_3pm search_time_morning _ strptime_8_AM]
    ParseTime_range [OF valid_friday_3pm search_time_single _ strptime_3_PM]
    ParseTime_range [OF valid_friday_3pm search_time_1111 _ strptime_1111_AM]
  by (simp add: group_def strptime_5_PM strptime_1_PM) (simp add: cmp_defs friday_3pm_def)

text \<open>
  Before the year 1000 the text of the instant's date has a year of fewer than four
  digits, \<^verbatim>\<open>strptime\<close> rejects it, and every recognised time clause raises.
\<close>

lemma ParseTime_before_1000:
  assumes "valid_datetime dt" and "year dt < 1000" and "re_search TIME_REGEX s = Some m"
  shows "ParseTime dt s = Inl ParseError"
proof -
  from time_group_1 [OF assms(3)] obtain a where "group m 1 = Some a" by blast
  with assms(3) strptime_datetime_short_year [OF assms(1, 2)] show ?thesis
    by (auto simp: ParseTime_def Let_def split: option.splits)
qed

lemma valid_year_999: "valid_datetime year_999"
  by (simp add: valid_datetime_def valid_date_def days_in_month_def DAYS_IN_MONTH_def
      year_999_def)

lemma strftime_dmY_year_999: "strftime_dmY year_999 = ''10/01/999 ''"
  by (simp add: strf_defs year_999_def)

text \<open>
  C4. The time matcher does not do for every instant what the claim says: in the year
  999 the rule \<^verbatim>\<open>time: 3:00 PM\<close>, a recognised clause with a valid time, asked at 15:00,
  raises \<^verbatim>\<open>ParseError\<close>, where the claim has it return true. The instant's date is printed
  \<^verbatim>\<open>10/01/999\<close> and \<^verbatim>\<open>%Y\<close> does not read it back. The same rule at the same time of day
  in 2014 returns true.
\<close>

theorem ParseTime_year_999:
  "valid_datetime year_999 \<and>
   strftime_dmY year_999 = ''10/01/999 '' \<and>
   re_search TIME_REGEX ''time: 3:00 PM'' = Some [(1, ''3:00 PM'')] \<and>
   time_of year_999 = (15, 0, 0, 0) \<and>
   ParseTime year_999 ''time: 3:00 PM'' = Inl ParseError \<and>
   time_of friday_3pm = (15, 0, 0, 0) \<and>
   ParseTime friday_3pm ''time: 3:00 PM'' = Inr True"
proof -
  have "year year_999 < 1000" by (simp add: year_999_def)
  from ParseTime_before_1000 [OF valid_year_999 this search_time_single]
  have "ParseTime year_999 ''time: 3:00 PM'' = Inl ParseError" .
  moreover have "time_of year_999 = (15, 0, 0, 0)" "time_of friday_3pm = (15, 0, 0, 0)"
    by (simp_all add: time_of_def year_999_def friday_3pm_def)
  ultimately show ?thesis
    using valid_year_999 strftime_dmY_year_999 search_time_single ParseTime_range_examples
    by simp
qed

lemma search_time_bar: "re_search TIME_REGEX ''time: 8:00 |M'' = Some [(1, ''8:00 |M'')]"
  by code_simp

text \<open>
  C10. The time pattern accepts \<^verbatim>\<open>|\<close> where the meridiem letter belongs:
  \<^verbatim>\<open>time: 8:00 |M\<close> is a recognised time clause. Such a clause, in the start or in the
  end time, makes the time matcher raise \<^verbatim>\<open>ParseError\<close> for every instant; it is not
  taken for a rule without a time clause.
\<close>

theorem bar_meridiem_raises:
  "re_search TIME_REGEX ''time: 8:00 |M'' = Some [(1, ''8:00 |M'')] \<and>
   (re_search TIME_REGEX s = Some m \<longrightarrow> group m 1 = Some (t @ ''|M'') \<longrightarrow>
      ParseTime dt s = Inl ParseError) \<and>
   (re_search TIME_REGEX s = Some m \<longrightarrow> group m 2 = Some (t @ ''|M'') \<longrightarrow>
      ParseTime dt s = Inl ParseError)"
proof (intro conjI impI)
  show "re_search TIME_REGEX ''time: 8:00 |M'' = Some [(1, ''8:00 |M'')]"
    by (rule search_time_bar)
  show "ParseTime dt s = Inl ParseError"
    if "re_search TIME_REGEX s = Some m" "group m 1 = Some (t @ ''|M'')"
    using that strptime_datetime_bar [of "strftime_dmY dt" t]
    by (auto simp: ParseTime_def Let_def split: option.splits)
  show "ParseTime dt s = Inl ParseError"
    if "re_search TIME_REGEX s = Some m" "group m 2 = Some (t @ ''|M'')"
    using that strptime_datetime_bar [of "strftime_dmY dt" t]
    by (auto simp: ParseTime_def Let_def split: option.splits)
qed

theorem bar_meridiem_raises_witness:
  "re_search TIME_REGEX ''time: 8:00 |M'' = Some [(1, ''8:00 |M'')] \<and>
   group [(1, ''8:00 |M'')] 1 = Some (''8:00 '' @ ''|M'') \<and>
   ParseTime friday_3pm ''time: 8:00 |M'' = Inl ParseError"
  using bar_meridiem_raises [of "''time: 8:00 |M''" "[(1, ''8:00 |M'')]" "''8:00 ''" friday_3pm]
  by (simp add: group_def)

section \<open>When \<^verbatim>\<open>ParseError\<close> is raised\<close>





lemma search_period_hour_15:
  "re_search PERIOD_REGEX ''every day time: 8:00 AM-15:00 PM'' = Some [(1, ''day'')]"
  by code_simp

lemma search_date_hour_15:
  "re_search DATE_REGEX ''every day time: 8:00 AM-15:00 PM'' = None"
  by code_simp

lemma search_time_hour_15:
  "re_search TIME_REGEX ''every day time: 8:00 AM-15:00 PM'' =
     Some [(2, ''15:00 PM''), (1, ''8:00 AM'')]"
  by code_simp

lemma strptime_15_PM: "strptime_datetime (strftime_dmY friday_3pm @ ''15:00 PM'') = None"
  by (simp add: strftime_dmY_friday_3pm strp_defs)







section \<open>The module's own test\<close>

text \<open>
  \<^verbatim>\<open>testIsAvailable\<close> of \<^verbatim>\<open>time_parser_test.py\<close>, run on the model: its seven
  assertions hold.
\<close>

lemma search_period_fri: "re_search PERIOD_REGEX ''every fri'' = Some [(1, ''fri'')]"
  by code_simp

lemma search_date_fri: "re_search DATE_REGEX ''every fri'' = None"
  by code_simp

lemma search_time_fri: "re_search TIME_REGEX ''every fri'' = None"
  by code_simp

lemma search_period_fri_time:
  "re_search PERIOD_REGEX ''every fri time: 8:00 AM-5:00 PM'' = Some [(1, ''fri'')]"
  by code_simp

lemma search_date_fri_time: "re_search DATE_REGEX ''every fri time: 8:00 AM-5:00 PM'' = None"
  by code_simp

lemma search_period_fri_date_time:
  "re_search PERIOD_REGEX ''every fri date: 10/1/2014 time: 8:00 AM-5:00 PM'' =
     Some [(1, ''fri'')]"
  by code_simp

lemma search_time_fri_date_time:
  "re_search TIME_REGEX ''every fri date: 10/1/2014 time: 8:00 AM-5:00 PM'' =
     Some [(2, ''5:00 PM''), (1, ''8:00 AM'')]"
  by code_simp

lemma search_period_date_time:
  "re_search PERIOD_REGEX ''date: 1/1/2014-15/1/2014 time: 8:00 AM-5:00 PM'' = None"
  by code_simp

lemma search_time_date_time:
  "re_search TIME_REGEX ''date: 1/1/2014-15/1/2014 time: 8:00 AM-5:00 PM'' =
     Some [(2, ''5:00 PM''), (1, ''8:00 AM'')]"
  by code_simp

lemma search_period_only_weekend: "re_search PERIOD_REGEX ''every weekend'' = Some [(1, ''weekend'')]"
  by code_simp

lemma search_date_only_weekend: "re_search DATE_REGEX ''every weekend'' = None"
  by code_simp

lemma search_time_only_weekend: "re_search TIME_REGEX ''every weekend'' = None"
  by code_simp

lemma search_period_morning:
  "re_search PERIOD_REGEX ''every day time: 8:00 AM-1:00 PM'' = Some [(1, ''day'')]"
  by code_simp

lemma search_date_morning: "re_search DATE_REGEX ''every day time: 8:00 AM-1:00 PM'' = None"
  by code_simp

lemmas matcher_defs =
  IsAvailable_def py_and_def ParsePeriod_def ParseDate_def ParseTime_def group_def
  lower_def lower_char_def WEEKEND_DAYS_def strftime_a_friday_3pm weekday_friday_3pm

lemma test_every_fri: "IsAvailable friday_3pm ''every fri'' = Inr True"
  by (simp add: matcher_defs search_period_fri search_date_fri search_time_fri)

lemma test_every_fri_time: "IsAvailable friday_3pm ''every fri time: 8:00 AM-5:00 PM'' = Inr True"
  by (simp add: matcher_defs search_period_fri_time search_date_fri_time search_time_range
      strptime_8_AM strptime_5_PM)
    (simp add: cmp_defs friday_3pm_def)

lemma test_every_fri_date_time:
  "IsAvailable friday_3pm ''every fri date: 10/1/2014 time: 8:00 AM-5:00 PM'' = Inr True"
  by (simp add: matcher_defs search_period_fri_date_time search_date_single
      search_time_fri_date_time strptime_date_10_1_2014 strptime_8_AM strptime_5_PM)
    (simp add: cmp_defs friday_3pm_def)

lemma test_date_time:
  "IsAvailable friday_3pm ''date: 1/1/2014-15/1/2014 time: 8:00 AM-5:00 PM'' = Inr True"
  by (simp add: matcher_defs search_period_date_time search_date_range search_time_date_time
      strptime_date_1_1_2014 strptime_date_15_1_2014 strptime_8_AM strptime_5_PM)
    (simp add: cmp_defs friday_3pm_def)

lemma test_every_weekend: "IsAvailable friday_3pm ''every weekend'' = Inr False"
  by (simp add: matcher_defs search_period_only_weekend search_date_only_weekend
      search_time_only_weekend)

lemma test_every_day_morning:
  "IsAvailable friday_3pm ''every day time: 8:00 AM-1:00 PM'' = Inr False"
  by (simp add: matcher_defs search_period_morning search_date_morning search_time_morning
      strptime_8_AM strptime_1_PM)
    (simp add: cmp_defs friday_3pm_def)

lemma test_every_day_hour_15:
  "IsAvailable friday_3pm ''every day time: 8:00 AM-15:00 PM'' = Inl ParseError"
  by (simp add: matcher_defs search_period_hour_15 search_date_hour_15 search_time_hour_15
      strptime_15_PM)

end
